theory Spec2Isabelle
  imports Main "HOL-Library.AList"
begin

section \<open>Session synchronisation: a model of \<open>SessionManager.js\<close>\<close>

text \<open>
  The development follows \<open>src/app/lib/SessionManager.js\<close>. The class keeps one session
  object, mutates it in its socket handlers and sends messages through the socket. Here
  the session, the global settings store and the log of sent messages form one explicit
  state (\<open>world\<close>); a handler takes the state and returns the exception it ended with
  (if any) together with the state it left behind. A JavaScript exception does not undo
  what the handler did before it: the state returned with an error is the state at the
  throw.
\<close>

subsection \<open>JavaScript values and objects\<close>

datatype json =
    JUndefined
  | JNull
  | JBool bool
  | JNum int
  | JStr string
  | JArr "json list"
  | JObj "(string \<times> json) list"

text \<open>
  An object is the list of its own properties in insertion order. A property whose value
  is \<open>undefined\<close> is still a property: \<open>{ ...o, [k]: undefined }\<close> keeps the key.
\<close>

type_synonym obj = "(string \<times> json) list"

text \<open>Reading \<open>o[k]\<close>: \<open>undefined\<close> when the object has no such property.\<close>

definition obj_get :: "obj \<Rightarrow> string \<Rightarrow> json" where
  "obj_get ob k = (case map_of ob k of None \<Rightarrow> JUndefined | Some v \<Rightarrow> v)"

text \<open>\<open>{ ...o, [k]: v }\<close>: the property is overwritten in place, or appended.\<close>

definition obj_set :: "obj \<Rightarrow> string \<Rightarrow> json \<Rightarrow> obj" where
  "obj_set ob k v = AList.update k v ob"

text \<open>\<open>Object.entries(o)\<close>: every own key once, with its value.\<close>

definition entries :: "obj \<Rightarrow> (string \<times> json) list" where
  "entries ob = AList.clearjunk ob"

text \<open>The truth value JavaScript gives a value in a condition (numbers are integers here).\<close>

fun truthy :: "json \<Rightarrow> bool" where
  "truthy JUndefined = False"
| "truthy JNull = False"
| "truthy (JBool b) = b"
| "truthy (JNum n) = (n \<noteq> 0)"
| "truthy (JStr s) = (s \<noteq> [])"
| "truthy (JArr xs) = True"
| "truthy (JObj kvs) = True"

text \<open>
  The keys \<open>JSON.stringify\<close> writes for an object: a property whose value is
  \<open>undefined\<close> is left out of the text that goes over the wire.
\<close>

definition stringify_keys :: "obj \<Rightarrow> string list" where
  "stringify_keys ob = map fst (filter (\<lambda>kv. snd kv \<noteq> JUndefined) ob)"

subsection \<open>Content, history and the session\<close>

record line =
  id_line :: string
  orderId :: int

record content =
  id_content :: string
  lines :: "line list"

record entry =
  entry_line :: "line option"
  isTransition :: bool

text \<open>
  Modelled from the spec: the class \<open>History\<close> of \<open>./History\<close> is not among the sources.
  The specification describes it as an ordered, append-only sequence of entries
  \<open>{ line, isTransition }\<close>: \<open>Append\<close> adds one entry and tolerates a missing line,
  \<open>TransitionsOnly\<close> is the subsequence of the entries marked as transitions, in their
  order, and \<open>Reset\<close> clears all entries.
\<close>

type_synonym History = "entry list"

definition update_History :: "line option \<Rightarrow> bool \<Rightarrow> History \<Rightarrow> History" where
  "update_History l isTrans h = h @ [\<lparr>entry_line = l, isTransition = isTrans\<rparr>]"

definition getTransitionsOnly :: "History \<Rightarrow> History" where
  "getTransitionsOnly h = filter isTransition h"


text \<open>
  The session of the constructor. \<open>null\<close> is \<open>None\<close>. \<open>viewedLines\<close> is a JavaScript
  \<open>Set\<close>: its members in insertion order, and \<open>null\<close> can be one of them.
\<close>

record session =
  bani :: "content option"
  lineId :: "string option"
  shabad :: "content option"
  viewedLines :: "string option list"
  mainLineId :: "string option"
  history :: History
  settings :: obj
  status :: "string option"

definition initial_session :: session where
  "initial_session =
     \<lparr>bani = None, lineId = None, shabad = None, viewedLines = [], mainLineId = None,
      history = [], settings = [], status = None\<rparr>"

text \<open>\<open>Set.prototype.add\<close>: a value already in the set is not added again.\<close>

definition Set_add :: "'a list \<Rightarrow> 'a \<Rightarrow> 'a list" where
  "Set_add xs x = (if x \<in> set xs then xs else xs @ [x])"

subsection \<open>Clients, messages and the state of the server\<close>

record client =
  host :: string

datatype payload =
    PContent "content option"
  | PLine "string option"
  | PViewed "string option list"
  | PMainLine "string option"
  | PStatus "string option"
  | PHistory History
  | PSettings obj

datatype target = Broadcast | To client

type_synonym message = "target \<times> string \<times> payload"

text \<open>
  The state of the server: the session, what the global settings store holds, the clients
  the socket is connected to (\<open>socket.forEach\<close> visits them in this order; the transport
  keeps the list) and the messages sent so far, oldest first.
\<close>

record world =
  session :: session
  globalSettings :: json
  clients :: "client list"
  sent :: "message list"

definition broadcast :: "string \<Rightarrow> payload \<Rightarrow> world \<Rightarrow> world" where
  "broadcast ev p w = w\<lparr>sent := sent w @ [(Broadcast, ev, p)]\<rparr>"

definition sendJSON :: "client \<Rightarrow> string \<Rightarrow> payload \<Rightarrow> world \<Rightarrow> world" where
  "sendJSON c ev p w = w\<lparr>sent := sent w @ [(To c, ev, p)]\<rparr>"

subsection \<open>The collaborators\<close>

datatype error = TypeError | Rejected

text \<open>
  The content repository (\<open>./db\<close>), the global settings store (\<open>./settings\<close>) and the
  libraries \<open>deepmerge\<close> and \<open>get-value\<close> are not among the sources; the handlers take
  them as parameters. A lookup is a promise: it is rejected (\<open>Inl\<close>), or it resolves to a
  content or to nothing (\<open>undefined\<close>, \<open>None\<close>).
  \<^item> \<open>mergeAll\<close> is \<open>merge.all( [ a, b, c ], { arrayMerge } )\<close>;
  \<^item> \<open>settingsMerge g x\<close> is the store after \<open>settingsManager.merge( x )\<close> when it held \<open>g\<close>,
    and \<open>settingsManager.get()\<close> returns what the store holds;
  \<^item> \<open>getValue v p\<close> is \<open>get( v, p )\<close>.
\<close>

record deps =
  getShabad :: "string option \<Rightarrow> error + content option"
  getShabadByOrderId :: "int option \<Rightarrow> error + content option"
  getBaniLines :: "string \<Rightarrow> error + content option"
  getShabadRange :: "error + (int \<times> int)"
  settingsMerge :: "json \<Rightarrow> json \<Rightarrow> json"
  mergeAll :: "obj \<Rightarrow> obj \<Rightarrow> obj \<Rightarrow> obj"
  getValue :: "json \<Rightarrow> string \<Rightarrow> json"

subsection \<open>Numbers: lodash \<open>clamp\<close> and the \<open>|| null\<close> guard\<close>

text \<open>
  Order ids are integers. \<open>clamp\<close> first converts its argument to a number: \<open>undefined\<close>
  becomes \<open>NaN\<close> and \<open>null\<close> becomes \<open>0\<close>. Here \<open>None\<close> is \<open>NaN\<close> on the way in and on
  the way out of \<open>clamp\<close>: every comparison with \<open>NaN\<close> is false, so it is returned as
  it is. For a number, the upper bound is applied first, then the lower bound.
\<close>

fun clamp :: "int option \<Rightarrow> int \<Rightarrow> int \<Rightarrow> int option" where
  "clamp None lower upper = None"
| "clamp (Some n) lower upper =
     (let n1 = (if n \<le> upper then n else upper)
      in Some (if n1 \<ge> lower then n1 else lower))"

text \<open>\<open>x || null\<close> on a number: \<open>NaN\<close> and \<open>0\<close> are falsy and give \<open>null\<close> (\<open>None\<close>).\<close>

fun orNull :: "int option \<Rightarrow> int option" where
  "orNull None = None"
| "orNull (Some n) = (if n = 0 then None else Some n)"

text \<open>The truth value of an optional number and of an optional string.\<close>

fun truthyNum :: "int option \<Rightarrow> bool" where
  "truthyNum None = False"
| "truthyNum (Some n) = (n \<noteq> 0)"

fun truthyStr :: "string option \<Rightarrow> bool" where
  "truthyStr None = False"
| "truthyStr (Some s) = (s \<noteq> [])"

text \<open>\<open>a || b\<close> on optional strings.\<close>

definition orElse :: "string option \<Rightarrow> string option \<Rightarrow> string option" where
  "orElse a b = (if truthyStr a then a else b)"

subsection \<open>Settings: \<open>getPublicSettings\<close>, \<open>clearCache\<close>, \<open>onSettings\<close>\<close>

definition private_path :: string where
  "private_path = ''security.options.private''"

text \<open>
  \<open>getPublicSettings\<close> reduces over the entries of the settings, starting from the empty
  object: the entry of a private host is set to \<open>undefined\<close>, any other entry is copied.
\<close>

definition getPublicSettings :: "deps \<Rightarrow> session \<Rightarrow> obj" where
  "getPublicSettings d s =
     foldl (\<lambda>acc (h, hs).
              obj_set acc h (if truthy (getValue d hs private_path) then JUndefined else hs))
       [] (entries (settings s))"

definition clearCache :: "world \<Rightarrow> client \<Rightarrow> world" where
  "clearCache w c =
     w\<lparr>session := (session w)\<lparr>settings := obj_set (settings (session w)) (host c) JUndefined\<rparr>\<rparr>"

text \<open>
  The payload of a settings event, \<open>{ local, global = {}, ...rest }\<close>: \<open>local\<close> is
  \<open>undefined\<close> when the client sent none, \<open>global\<close> is \<open>None\<close> when absent and then
  defaults to the empty object.
\<close>

record settings_event =
  local_settings :: json
  global_settings :: "json option"
  rest_settings :: obj

text \<open>The object literal that \<open>onSettings\<close> sends to one client.\<close>

definition clientSettings :: "obj \<Rightarrow> obj \<Rightarrow> json \<Rightarrow> client \<Rightarrow> obj" where
  "clientSettings publicSettings stored globals c =
     obj_set (obj_set (obj_set publicSettings (host c) JUndefined)
                ''local'' (obj_get stored (host c)))
       ''global'' globals"

definition onSettings :: "deps \<Rightarrow> world \<Rightarrow> client \<Rightarrow> settings_event \<Rightarrow> error option \<times> world" where
  "onSettings d w c ev =
     (let g = (case global_settings ev of None \<Rightarrow> JObj [] | Some x \<Rightarrow> x);
          globals' = settingsMerge d (globalSettings w) g;
          s = session w;
          s' = s\<lparr>settings :=
                 mergeAll d (settings s) (rest_settings ev) [(host c, local_settings ev)]\<rparr>;
          publicSettings = getPublicSettings d s';
          w' = w\<lparr>session := s', globalSettings := globals'\<rparr>
      in (None,
          foldl (\<lambda>acc cl.
                   sendJSON cl ''settings''
                     (PSettings (clientSettings publicSettings (settings s') globals' cl)) acc)
            w' (clients w')))"

subsection \<open>Lines: \<open>onLine\<close>\<close>

record line_event =
  req_lineId :: "string option"
  req_lineOrderId :: "int option"

text \<open>
  The payload of a line event, \<open>{ lineId, lineOrderId }\<close>; \<open>None\<close> is a field that is
  absent. (A \<open>lineOrderId\<close> that is \<open>null\<close> is read by \<open>clamp\<close> as the number \<open>0\<close> and
  is used nowhere else: it is the event with \<open>Some 0\<close>.)

  \<open>lineOrderIdRange\<close>: the order ids of the first and of the last line of the shabad.
  Destructuring \<open>shabad.lines[ 0 ]\<close> throws when there is no line.
\<close>

definition lineOrderIdRange :: "content \<Rightarrow> error + (int \<times> int)" where
  "lineOrderIdRange sh =
     (case lines sh of
        [] \<Rightarrow> Inl TypeError
      | l # ls \<Rightarrow> Inr (orderId l, orderId (last (l # ls))))"

definition clampedLineOrderId :: "int option \<Rightarrow> int \<times> int \<Rightarrow> int option" where
  "clampedLineOrderId lineOrderId r = orNull (clamp lineOrderId (fst r) (snd r))"

text \<open>
  \<open>newLineId\<close>: \<open>lineId || ( lines.find( orderId === clamped ) || {} ).id || null\<close>. No
  order id is \<open>null\<close>, so nothing is found when the clamped value is \<open>null\<close>.
\<close>

definition newLineId :: "content \<Rightarrow> string option \<Rightarrow> int option \<Rightarrow> string option" where
  "newLineId c lineId' clamped =
     orElse lineId'
       (orElse (map_option id_line (find (\<lambda>l. Some (orderId l) = clamped) (lines c))) None)"

text \<open>\<open>const { lines = [] } = shabad || bani || {}\<close>.\<close>

definition activeLines :: "session \<Rightarrow> line list" where
  "activeLines s =
     (case shabad s of
        Some c \<Rightarrow> lines c
      | None \<Rightarrow> (case bani s of Some c \<Rightarrow> lines c | None \<Rightarrow> []))"

text \<open>
  \<open>onLine\<close>. The range is computed from \<open>session.shabad\<close> alone: reading \<open>shabad.lines\<close>
  throws when the shabad is \<open>null\<close>, whatever the bani is. The session is reassigned with
  the new line id before the broadcasts; the set of viewed lines and the history are
  objects of the session that are changed in place.
\<close>

definition onLine :: "world \<Rightarrow> client \<Rightarrow> line_event \<Rightarrow> bool \<Rightarrow> error option \<times> world" where
  "onLine w c ev transition =
     (let s = session w in
      case shabad s of
        None \<Rightarrow> (Some TypeError, w)
      | Some sh \<Rightarrow>
          (case lineOrderIdRange sh of
             Inl e \<Rightarrow> (Some e, w)
           | Inr r \<Rightarrow>
               (let new = newLineId sh (req_lineId ev)
                            (clampedLineOrderId (req_lineOrderId ev) r);
                    viewed = Set_add (viewedLines s) new;
                    ls = activeLines s;
                    s1 = s\<lparr>viewedLines := viewed, lineId := new\<rparr>;
                    w1 = broadcast ''line'' (PLine new) (w\<lparr>session := s1\<rparr>);
                    w2 = broadcast ''viewedLines'' (PViewed viewed) w1;
                    l = find (\<lambda>l. new = Some (id_line l)) ls;
                    isTrans = (transition \<or> new = None)
                in (None,
                    w2\<lparr>session :=
                         (session w2)\<lparr>history := update_History l isTrans (history s1)\<rparr>\<rparr>))))"

subsection \<open>Content: \<open>onShabad\<close> and \<open>onBani\<close>\<close>

text \<open>
  The payload of a shabad event, \<open>{ shabadId, shabadOrderId = null, ...rest }\<close>. An absent
  \<open>shabadOrderId\<close> is \<open>null\<close>, which \<open>clamp\<close> reads as the number \<open>0\<close>.
\<close>

record shabad_event =
  shabadId :: "string option"
  shabadOrderId :: "int option"
  rest :: line_event

definition clampedShabadOrderId :: "int option \<Rightarrow> int \<times> int \<Rightarrow> int option" where
  "clampedShabadOrderId sid r =
     orNull (clamp (Some (case sid of None \<Rightarrow> 0 | Some n \<Rightarrow> n)) (fst r) (snd r))"

text \<open>
  The lookup of \<open>onShabad\<close>: by order id when \<open>shabadOrderId\<close> itself is truthy, by
  \<open>shabadId\<close> otherwise.
\<close>

definition fetchShabad :: "deps \<Rightarrow> shabad_event \<Rightarrow> int \<times> int \<Rightarrow> error + content option" where
  "fetchShabad d ev r =
     (if truthyNum (shabadOrderId ev)
      then getShabadByOrderId d (clampedShabadOrderId (shabadOrderId ev) r)
      else getShabad d (shabadId ev))"

text \<open>
  \<open>onShabad\<close>. The log line \<open>shabad.id\<close> throws when the lookup resolved to nothing. The
  history object taken from the session at the start is the one \<open>onLine\<close> appends to,
  so the final rebroadcast reads the history as \<open>onLine\<close> left it. An exception of
  \<open>onLine\<close> ends the handler before the rebroadcast.
\<close>

definition onShabad :: "deps \<Rightarrow> world \<Rightarrow> client \<Rightarrow> shabad_event \<Rightarrow> error option \<times> world" where
  "onShabad d w c ev =
     (case getShabadRange d of
        Inl e \<Rightarrow> (Some e, w)
      | Inr r \<Rightarrow>
          (case fetchShabad d ev r of
             Inl e \<Rightarrow> (Some e, w)
           | Inr None \<Rightarrow> (Some TypeError, w)
           | Inr (Some sh) \<Rightarrow>
               (let s1 = (session w)\<lparr>shabad := Some sh, bani := None, viewedLines := [],
                                     mainLineId := None\<rparr>;
                    w1 = broadcast ''shabad'' (PContent (Some sh)) (w\<lparr>session := s1\<rparr>)
                in case onLine w1 c (rest ev) True of
                     (Some e, w2) \<Rightarrow> (Some e, w2)
                   | (None, w2) \<Rightarrow>
                       (None,
                        broadcast ''history''
                          (PHistory (getTransitionsOnly (history (session w2)))) w2))))"

text \<open>
  \<open>onBani\<close>. Destructuring \<open>bani\<close> throws when the lookup resolved to nothing, and
  destructuring \<open>firstLine\<close> throws when the bani has no line. \<open>onLine\<close> is then called
  with the id string itself as its payload: destructuring \<open>{ lineId, lineOrderId }\<close> from
  a string gives \<open>undefined\<close> for both.
\<close>

definition onBani :: "deps \<Rightarrow> world \<Rightarrow> client \<Rightarrow> string \<Rightarrow> error option \<times> world" where
  "onBani d w c baniId =
     (case getBaniLines d baniId of
        Inl e \<Rightarrow> (Some e, w)
      | Inr None \<Rightarrow> (Some TypeError, w)
      | Inr (Some b) \<Rightarrow>
          (case lines b of
             [] \<Rightarrow> (Some TypeError, w)
           | firstLine # ls \<Rightarrow>
               (let s1 = (session w)\<lparr>bani := Some b, shabad := None, viewedLines := []\<rparr>;
                    w1 = broadcast ''bani'' (PContent (Some b)) (w\<lparr>session := s1\<rparr>)
                in case onLine w1 c \<lparr>req_lineId = None, req_lineOrderId = None\<rparr> True of
                     (Some e, w2) \<Rightarrow> (Some e, w2)
                   | (None, w2) \<Rightarrow>
                       (None,
                        broadcast ''history''
                          (PHistory (getTransitionsOnly (history (session w2)))) w2))))"

subsection \<open>The other handlers\<close>




text \<open>\<open>synchronise\<close>: seven messages to the connecting client, in this order.\<close>

definition synchronise :: "deps \<Rightarrow> world \<Rightarrow> client \<Rightarrow> world" where
  "synchronise d w c =
     (let s = session w;
          w1 = (case bani s of
                  Some b \<Rightarrow> sendJSON c ''bani'' (PContent (Some b)) w
                | None \<Rightarrow> sendJSON c ''shabad'' (PContent (shabad s)) w);
          w2 = sendJSON c ''line'' (PLine (lineId s)) w1;
          w3 = sendJSON c ''viewedLines'' (PViewed (viewedLines s)) w2;
          w4 = sendJSON c ''mainLine'' (PMainLine (mainLineId s)) w3;
          w5 = sendJSON c ''status'' (PStatus (status s)) w4;
          w6 = sendJSON c ''history'' (PHistory (getTransitionsOnly (history s))) w5
      in sendJSON c ''settings'' (PSettings (getPublicSettings d s)) w6)"

subsection \<open>The operations of the coordinator\<close>



subsection \<open>What the specification says, for comparison\<close>

text \<open>
  The line resolution as the specification words it: the explicit \<open>lineId\<close> if present,
  else the id of the line of the content whose order id is \<open>lineOrderId\<close> clamped into
  the range of the content's order ids, else \<open>null\<close>.
\<close>

definition claimed_newLineId :: "line list \<Rightarrow> string option \<Rightarrow> int option \<Rightarrow> string option" where
  "claimed_newLineId ls lineId' lineOrderId =
     (case lineId' of
        Some i \<Rightarrow> Some i
      | None \<Rightarrow>
          (case lineOrderId of
             None \<Rightarrow> None
           | Some n \<Rightarrow>
               (if ls = [] then None
                else map_option id_line
                       (find (\<lambda>l. orderId l = max (orderId (hd ls)) (min (orderId (last ls)) n))
                          ls))))"





text \<open>
  The public-view portion of a settings message: its properties other than \<open>local\<close> and
  \<open>global\<close>.
\<close>

definition public_portion :: "obj \<Rightarrow> obj" where
  "public_portion m = filter (\<lambda>kv. fst kv \<noteq> ''local'' \<and> fst kv \<noteq> ''global'') m"

text \<open>A lookup fails: the promise is rejected, or it resolves to nothing.\<close>

definition shabadLookupFails :: "deps \<Rightarrow> shabad_event \<Rightarrow> bool" where
  "shabadLookupFails d ev \<longleftrightarrow>
     (case getShabadRange d of
        Inl e \<Rightarrow> True
      | Inr r \<Rightarrow> (case fetchShabad d ev r of Inr (Some sh) \<Rightarrow> False | _ \<Rightarrow> True))"

definition baniLookupFails :: "deps \<Rightarrow> string \<Rightarrow> bool" where
  "baniLookupFails d baniId \<longleftrightarrow>
     (case getBaniLines d baniId of Inr (Some b) \<Rightarrow> False | _ \<Rightarrow> True)"

subsection \<open>Concrete collaborators and scenarios\<close>

text \<open>
  A reading of \<open>get-value\<close> for a dotted path whose keys hold no dot: a target that is not
  an object is returned as it is, an object is followed key by key.
\<close>

fun read_prop :: "json \<Rightarrow> string \<Rightarrow> json" where
  "read_prop (JObj kvs) k = obj_get kvs k"
| "read_prop v k = JUndefined"

fun segments :: "string \<Rightarrow> string list" where
  "segments [] = [[]]"
| "segments (c # cs) =
     (if c = CHR ''.'' then [] # segments cs
      else (case segments cs of [] \<Rightarrow> [[c]] | sg # sgs \<Rightarrow> (c # sg) # sgs))"

definition get_value :: "json \<Rightarrow> string \<Rightarrow> json" where
  "get_value v p =
     (case v of
        JObj kvs \<Rightarrow> foldl read_prop v (segments p)
      | JArr xs \<Rightarrow> JUndefined
      | _ \<Rightarrow> v)"

text \<open>
  A reading of \<open>deepmerge\<close> with the array policy of \<open>onSettings\<close> (the incoming array
  replaces the stored one): objects merge key by key, anything else is overwritten.
\<close>

fun isMergeableObject :: "json \<Rightarrow> bool" where
  "isMergeableObject (JObj kvs) = True"
| "isMergeableObject (JArr xs) = True"
| "isMergeableObject v = False"

lemma size_property_less:
  "(k, v) \<in> set kvs \<Longrightarrow> size v < Suc (size_list (size_prod (\<lambda>_. 0) size) kvs)"
  by (induction kvs) auto

function deepmerge :: "json \<Rightarrow> json \<Rightarrow> json" where
  "deepmerge target source =
     (case source of
        JObj src \<Rightarrow>
          (case target of
             JObj tgt \<Rightarrow>
               JObj (foldl (\<lambda>acc kv.
                       obj_set acc (fst kv)
                         (if fst kv \<in> fst ` set tgt \<and> isMergeableObject (snd kv)
                          then deepmerge (obj_get tgt (fst kv)) (snd kv) else snd kv))
                     tgt src)
           | _ \<Rightarrow> source)
      | _ \<Rightarrow> source)"
  by pat_completeness auto
termination
  apply (relation "measure (\<lambda>(t, s). size s)")
   apply simp
  apply (auto dest: size_property_less)
  done

definition deepmerge_all :: "obj \<Rightarrow> obj \<Rightarrow> obj \<Rightarrow> obj" where
  "deepmerge_all a b c =
     (case deepmerge (deepmerge (deepmerge (JObj []) (JObj a)) (JObj b)) (JObj c) of
        JObj kvs \<Rightarrow> kvs
      | _ \<Rightarrow> [])"

definition japji :: content where
  "japji = \<lparr>id_content = ''japji'',
            lines = [\<lparr>id_line = ''l1'', orderId = 0\<rparr>, \<lparr>id_line = ''l2'', orderId = 1\<rparr>]\<rparr>"

definition shabad1 :: content where
  "shabad1 = \<lparr>id_content = ''s1'',
              lines = [\<lparr>id_line = ''a1'', orderId = 0\<rparr>, \<lparr>id_line = ''a2'', orderId = 1\<rparr>,
                       \<lparr>id_line = ''a3'', orderId = 2\<rparr>]\<rparr>"

definition demo_deps :: deps where
  "demo_deps =
     \<lparr>getShabad = (\<lambda>i. if i = Some ''s1'' then Inr (Some shabad1) else Inr None),
      getShabadByOrderId = (\<lambda>n. if n = Some 7 then Inr (Some shabad1) else Inl Rejected),
      getBaniLines = (\<lambda>b. if b = ''japji'' then Inr (Some japji) else Inr None),
      getShabadRange = Inr (0, 500),
      settingsMerge = deepmerge,
      mergeAll = deepmerge_all,
      getValue = get_value\<rparr>"

definition client3 :: client where
  "client3 = \<lparr>host = ''h3''\<rparr>"

definition client4 :: client where
  "client4 = \<lparr>host = ''h4''\<rparr>"

definition private_settings :: json where
  "private_settings =
     JObj [(''theme'', JStr ''light''),
           (''security'', JObj [(''options'', JObj [(''private'', JBool True)])])]"

definition demo_world :: world where
  "demo_world =
     \<lparr>session = initial_session\<lparr>settings := [(''h3'', JObj [(''theme'', JStr ''dark'')]),
                                               (''h4'', private_settings)],
                                 mainLineId := Some ''m9''\<rparr>,
      globalSettings = JObj [(''system'', JObj [(''automaticUpdates'', JBool True)])],
      clients = [client3, client4],
      sent = []\<rparr>"

definition shabad_world :: world where
  "shabad_world = demo_world\<lparr>session := (session demo_world)\<lparr>shabad := Some shabad1\<rparr>\<rparr>"

definition blue_event :: settings_event where
  "blue_event = \<lparr>local_settings = JObj [(''theme'', JStr ''blue'')], global_settings = None,
                  rest_settings = []\<rparr>"

definition blue_message :: obj where
  "blue_message =
     [(''h3'', JUndefined), (''h4'', JUndefined), (''local'', JObj [(''theme'', JStr ''blue'')]),
      (''global'', JObj [(''system'', JObj [(''automaticUpdates'', JBool True)])])]"

text \<open>
  The line resolution that \<open>onLine\<close> is shown to perform: an explicit non-empty \<open>lineId\<close>
  wins; else, when a \<open>lineOrderId\<close> is given and its clamp into the order ids of the first
  and last line is not \<open>0\<close>, the non-empty id of the first line with that order id; else
  \<open>null\<close>.
\<close>

definition amended_newLineId :: "line list \<Rightarrow> string option \<Rightarrow> int option \<Rightarrow> string option" where
  "amended_newLineId ls lineId' lineOrderId =
     (if lineId' \<noteq> None \<and> lineId' \<noteq> Some [] then lineId'
      else (case lineOrderId of
              None \<Rightarrow> None
            | Some n \<Rightarrow>
                (let k = max (orderId (hd ls)) (min (orderId (last ls)) n)
                 in if k = 0 then None
                    else (case find (\<lambda>l. orderId l = k) ls of
                            None \<Rightarrow> None
                          | Some l \<Rightarrow> if id_line l = [] then None else Some (id_line l)))))"

definition zero_line_event :: line_event where
  "zero_line_event = \<lparr>req_lineId = None, req_lineOrderId = Some 0\<rparr>"

definition far_line_event :: line_event where
  "far_line_event = \<lparr>req_lineId = None, req_lineOrderId = Some 9\<rparr>"

definition zero_shabad_event :: shabad_event where
  "zero_shabad_event = \<lparr>shabadId = Some ''s1'', shabadOrderId = Some 0, rest = far_line_event\<rparr>"

definition missing_shabad_event :: shabad_event where
  "missing_shabad_event =
     \<lparr>shabadId = Some ''zz'', shabadOrderId = None,
      rest = \<lparr>req_lineId = None, req_lineOrderId = None\<rparr>\<rparr>"

definition rejected_shabad_event :: shabad_event where
  "rejected_shabad_event =
     \<lparr>shabadId = Some ''s1'', shabadOrderId = Some 3,
      rest = \<lparr>req_lineId = None, req_lineOrderId = None\<rparr>\<rparr>"

definition browsing_world :: world where
  "browsing_world =
     shabad_world\<lparr>session := (session shabad_world)\<lparr>lineId := Some ''a1'',
                                                   viewedLines := [Some ''a1''],
                                                   mainLineId := Some ''a2''\<rparr>\<rparr>"


section \<open>Properties\<close>

subsection \<open>Objects\<close>

lemma obj_get_obj_set: "obj_get (obj_set ob k v) k' = (if k' = k then v else obj_get ob k')"
  by (simp add: obj_get_def obj_set_def AList.update_conv')

lemma distinct_obj_set: "distinct (map fst ob) \<Longrightarrow> distinct (map fst (obj_set ob k v))"
  by (simp add: obj_set_def AList.distinct_update)

lemma map_of_foldl_obj_set:
  "distinct (map fst es) \<Longrightarrow>
   map_of (foldl (\<lambda>acc (h, hs). obj_set acc h (f hs)) acc0 es) k =
     (case map_of es k of Some hs \<Rightarrow> Some (f hs) | None \<Rightarrow> map_of acc0 k)"
proof (induction es arbitrary: acc0)
  case Nil
  then show ?case by simp
next
  case (Cons e es)
  obtain h hs where e: "e = (h, hs)" by (cases e)
  from Cons.prems e have d: "distinct (map fst es)" and nin: "map_of es h = None"
    by (auto simp: map_of_eq_None_iff)
  show ?case
    using Cons.IH [OF d, of "obj_set acc0 h (f hs)"] nin
    by (auto simp: e obj_set_def AList.update_conv' split: option.splits)
qed

lemma distinct_foldl_obj_set:
  "distinct (map fst acc0) \<Longrightarrow>
   distinct (map fst (foldl (\<lambda>acc (h, hs). obj_set acc h (f hs)) acc0 es))"
  by (induction es arbitrary: acc0) (auto simp: distinct_obj_set)

lemma stringify_keys_iff:
  "distinct (map fst ob) \<Longrightarrow> k \<in> set (stringify_keys ob) \<longleftrightarrow> obj_get ob k \<noteq> JUndefined"
proof (induction ob)
  case Nil
  then show ?case by (simp add: stringify_keys_def obj_get_def)
next
  case (Cons e ob)
  then have IH: "k \<in> set (stringify_keys ob) \<longleftrightarrow> obj_get ob k \<noteq> JUndefined" by simp
  have sub: "set (stringify_keys ob) \<subseteq> fst ` set ob"
    by (auto simp: stringify_keys_def)
  show ?case
  proof (cases "fst e = k")
    case True
    with Cons.prems sub have "k \<notin> set (stringify_keys ob)" by auto
    with True show ?thesis
      by (cases e) (auto simp: stringify_keys_def obj_get_def)
  next
    case False
    with IH show ?thesis
      by (cases e) (auto simp: stringify_keys_def obj_get_def)
  qed
qed

subsection \<open>The public view\<close>

lemma distinct_getPublicSettings: "distinct (map fst (getPublicSettings d s))"
  unfolding getPublicSettings_def by (rule distinct_foldl_obj_set) simp

lemma obj_get_getPublicSettings:
  "obj_get (getPublicSettings d s) h =
     (if truthy (getValue d (obj_get (settings s) h) private_path) then JUndefined
      else obj_get (settings s) h)"
  unfolding getPublicSettings_def obj_get_def entries_def
  by (simp add: map_of_foldl_obj_set AList.map_of_clearjunk split: option.splits)

lemma demo_private:
  "truthy (getValue demo_deps (obj_get (settings (session demo_world)) ''h4'') private_path)"
  by (simp add: demo_deps_def demo_world_def initial_session_def obj_get_def
      private_settings_def private_path_def get_value_def)

lemma demo_public:
  "\<not> truthy (getValue demo_deps (obj_get (settings (session demo_world)) ''h3'') private_path)"
  by (simp add: demo_deps_def demo_world_def initial_session_def obj_get_def
      private_path_def get_value_def)

text \<open>
  Claim C5. In every state of the settings, the public view has no entry for a host whose
  stored settings have a truthy \<open>security.options.private\<close>, whatever else these settings
  hold: reading the host's key in the view gives \<open>undefined\<close>, and the key is not among those
  written when the view is sent. The entry of every other host is in the view unchanged.
  (The reduce of \<open>getPublicSettings\<close> keeps the key of a private host, with the value
  \<open>undefined\<close>.)
\<close>

theorem getPublicSettings_omits_private:
  "(truthy (getValue d (obj_get (settings s) h) private_path) \<longrightarrow>
      obj_get (getPublicSettings d s) h = JUndefined \<and>
      h \<notin> set (stringify_keys (getPublicSettings d s))) \<and>
   (\<not> truthy (getValue d (obj_get (settings s) h) private_path) \<longrightarrow>
      obj_get (getPublicSettings d s) h = obj_get (settings s) h)"
  by (simp add: stringify_keys_iff distinct_getPublicSettings obj_get_getPublicSettings)

theorem getPublicSettings_omits_private_witness:
  "truthy (getValue demo_deps (obj_get (settings (session demo_world)) ''h4'') private_path) \<and>
   obj_get (getPublicSettings demo_deps (session demo_world)) ''h4'' = JUndefined \<and>
   ''h4'' \<notin> set (stringify_keys (getPublicSettings demo_deps (session demo_world))) \<and>
   \<not> truthy (getValue demo_deps (obj_get (settings (session demo_world)) ''h3'') private_path) \<and>
   obj_get (getPublicSettings demo_deps (session demo_world)) ''h3'' =
     JObj [(''theme'', JStr ''dark'')]"
proof -
  have h3: "obj_get (settings (session demo_world)) ''h3'' = JObj [(''theme'', JStr ''dark'')]"
    by (simp add: demo_world_def initial_session_def obj_get_def)
  show ?thesis
    using getPublicSettings_omits_private [of demo_deps "session demo_world" "''h4''"]
      getPublicSettings_omits_private [of demo_deps "session demo_world" "''h3''"]
      demo_private demo_public h3
    by simp
qed

text \<open>
  Claim C6. A disconnect of a client with host \<open>h\<close> clears the settings stored for \<open>h\<close> and
  sends nothing; the public view computed afterwards has no entry for \<open>h\<close>: reading \<open>h\<close> in
  it gives \<open>undefined\<close>, and \<open>h\<close> is not among the keys written when the view is sent.
  (\<open>clearCache\<close> sets the property to \<open>undefined\<close> rather than deleting it.)
\<close>

theorem clearCache_then_public_view:
  "obj_get (settings (session (clearCache w c))) (host c) = JUndefined \<and>
   obj_get (getPublicSettings d (session (clearCache w c))) (host c) = JUndefined \<and>
   host c \<notin> set (stringify_keys (getPublicSettings d (session (clearCache w c)))) \<and>
   sent (clearCache w c) = sent w"
proof -
  have stored: "obj_get (settings (session (clearCache w c))) (host c) = JUndefined"
    by (simp add: clearCache_def obj_get_obj_set)
  then have view: "obj_get (getPublicSettings d (session (clearCache w c))) (host c) = JUndefined"
    by (simp add: obj_get_getPublicSettings)
  with stored show ?thesis
    by (simp add: stringify_keys_iff distinct_getPublicSettings) (simp add: clearCache_def)
qed

theorem clearCache_then_public_view_witness:
  "obj_get (settings (session demo_world)) ''h3'' = JObj [(''theme'', JStr ''dark'')] \<and>
   obj_get (getPublicSettings demo_deps (session (clearCache demo_world client3))) ''h3''
     = JUndefined \<and>
   ''h3'' \<notin> set (stringify_keys
                    (getPublicSettings demo_deps (session (clearCache demo_world client3)))) \<and>
   sent (clearCache demo_world client3) = []"
proof -
  have h: "host client3 = ''h3''" by (simp add: client3_def)
  have s: "sent demo_world = []" by (simp add: demo_world_def)
  have h3: "obj_get (settings (session demo_world)) ''h3'' = JObj [(''theme'', JStr ''dark'')]"
    by (simp add: demo_world_def initial_session_def obj_get_def)
  show ?thesis
    using clearCache_then_public_view [of demo_world client3 demo_deps] h s h3 by simp
qed

subsection \<open>Settings events\<close>

lemma foldl_sendJSON:
  "foldl (\<lambda>acc cl. sendJSON cl ev (g cl) acc) w0 cs =
     w0\<lparr>sent := sent w0 @ map (\<lambda>cl. (To cl, ev, g cl)) cs\<rparr>"
  by (induction cs arbitrary: w0) (simp_all add: sendJSON_def)

lemma onSettings_result:
  "onSettings d w c ev =
     (None,
      w\<lparr>session := (session w)\<lparr>settings :=
            mergeAll d (settings (session w)) (rest_settings ev) [(host c, local_settings ev)]\<rparr>,
        globalSettings :=
            settingsMerge d (globalSettings w)
              (case global_settings ev of None \<Rightarrow> JObj [] | Some x \<Rightarrow> x),
        sent := sent w @
          map (\<lambda>cl. (To cl, ''settings'',
                  PSettings (clientSettings
                    (getPublicSettings d ((session w)\<lparr>settings :=
                       mergeAll d (settings (session w)) (rest_settings ev)
                         [(host c, local_settings ev)]\<rparr>))
                    (mergeAll d (settings (session w)) (rest_settings ev)
                       [(host c, local_settings ev)])
                    (settingsMerge d (globalSettings w)
                       (case global_settings ev of None \<Rightarrow> JObj [] | Some x \<Rightarrow> x))
                    cl)))
            (clients w)\<rparr>)"
  by (simp add: onSettings_def Let_def foldl_sendJSON)

lemma map_of_filter_key:
  "map_of (filter (\<lambda>kv. Q (fst kv)) xs) k = (if Q k then map_of xs k else None)"
  by (induction xs) auto

lemma obj_get_public_portion:
  "obj_get (public_portion m) k =
     (if k \<noteq> ''local'' \<and> k \<noteq> ''global'' then obj_get m k else JUndefined)"
  unfolding public_portion_def obj_get_def
  using map_of_filter_key [of "\<lambda>k. k \<noteq> ''local'' \<and> k \<noteq> ''global''" m k] by simp

lemma distinct_public_portion:
  "distinct (map fst m) \<Longrightarrow> distinct (map fst (public_portion m))"
  by (simp add: public_portion_def distinct_map_filter)

lemma distinct_clientSettings:
  "distinct (map fst pub) \<Longrightarrow> distinct (map fst (clientSettings pub st g c))"
  by (simp add: clientSettings_def distinct_obj_set)

lemma clientSettings_props:
  assumes "distinct (map fst pub)"
  shows "obj_get (public_portion (clientSettings pub st g c)) (host c) = JUndefined"
    and "host c \<notin> set (stringify_keys (public_portion (clientSettings pub st g c)))"
    and "obj_get (clientSettings pub st g c) ''local'' = obj_get st (host c)"
    and "obj_get (clientSettings pub st g c) ''global'' = g"
proof -
  show 1: "obj_get (public_portion (clientSettings pub st g c)) (host c) = JUndefined"
    by (simp add: obj_get_public_portion clientSettings_def obj_get_obj_set)
  from assms have "distinct (map fst (public_portion (clientSettings pub st g c)))"
    by (intro distinct_public_portion distinct_clientSettings)
  with 1 show "host c \<notin> set (stringify_keys (public_portion (clientSettings pub st g c)))"
    by (simp add: stringify_keys_iff)
  show "obj_get (clientSettings pub st g c) ''local'' = obj_get st (host c)"
    by (simp add: clientSettings_def obj_get_obj_set)
  show "obj_get (clientSettings pub st g c) ''global'' = g"
    by (simp add: clientSettings_def obj_get_obj_set)
qed

text \<open>
  Claim C4. A settings event never fails, and it sends one settings message to every
  connected client, in particular to the sender with host \<open>H\<close>. In the message sent to a
  client with host \<open>H\<close>, the public-view portion has no entry for \<open>H\<close> (reading \<open>H\<close> gives
  \<open>undefined\<close> and the key is not written when the message is sent), the field \<open>local\<close> is
  what the session now stores for \<open>H\<close>, and the field \<open>global\<close> is the global configuration
  after the event.
\<close>

theorem onSettings_message:
  "fst (onSettings d w sender ev) = None \<and>
   (c \<in> set (clients w) \<longrightarrow>
      (\<exists>m. (To c, ''settings'', PSettings m)
             \<in> set (drop (length (sent w)) (sent (snd (onSettings d w sender ev)))))) \<and>
   (\<forall>m. (To c, ''settings'', PSettings m)
           \<in> set (drop (length (sent w)) (sent (snd (onSettings d w sender ev)))) \<longrightarrow>
        obj_get (public_portion m) (host c) = JUndefined \<and>
        host c \<notin> set (stringify_keys (public_portion m)) \<and>
        obj_get m ''local'' = obj_get (settings (session (snd (onSettings d w sender ev)))) (host c) \<and>
        obj_get m ''global'' = globalSettings (snd (onSettings d w sender ev)))"
  by (auto simp: onSettings_result clientSettings_props distinct_getPublicSettings)


lemma blue_sent:
  "sent (snd (onSettings demo_deps demo_world client3 blue_event)) =
     [(To client3, ''settings'', PSettings blue_message),
      (To client4, ''settings'', PSettings
         [(''h3'', JObj [(''theme'', JStr ''blue'')]), (''h4'', JUndefined),
          (''local'', private_settings),
          (''global'', JObj [(''system'', JObj [(''automaticUpdates'', JBool True)])])])]"
  by code_simp

theorem onSettings_message_witness:
  "client3 \<in> set (clients demo_world) \<and>
   (To client3, ''settings'', PSettings blue_message)
     \<in> set (drop (length (sent demo_world))
               (sent (snd (onSettings demo_deps demo_world client3 blue_event)))) \<and>
   obj_get (public_portion blue_message) ''h3'' = JUndefined \<and>
   ''h3'' \<notin> set (stringify_keys (public_portion blue_message)) \<and>
   obj_get blue_message ''local'' = JObj [(''theme'', JStr ''blue'')] \<and>
   obj_get (settings (session (snd (onSettings demo_deps demo_world client3 blue_event)))) ''h3''
     = JObj [(''theme'', JStr ''blue'')] \<and>
   obj_get blue_message ''global'' = globalSettings demo_world"
proof -
  have c: "client3 \<in> set (clients demo_world)" by (simp add: demo_world_def)
  have m: "(To client3, ''settings'', PSettings blue_message)
     \<in> set (drop (length (sent demo_world))
               (sent (snd (onSettings demo_deps demo_world client3 blue_event))))"
    by (simp add: blue_sent) (simp add: demo_world_def)
  have h: "host client3 = ''h3''" by (simp add: client3_def)
  have l: "obj_get blue_message ''local'' = JObj [(''theme'', JStr ''blue'')]"
    by (simp add: blue_message_def obj_get_def)
  have g: "globalSettings (snd (onSettings demo_deps demo_world client3 blue_event))
             = globalSettings demo_world"
    by code_simp
  from onSettings_message [of demo_deps demo_world client3 blue_event client3] m h
  have "obj_get (public_portion blue_message) ''h3'' = JUndefined \<and>
        ''h3'' \<notin> set (stringify_keys (public_portion blue_message)) \<and>
        obj_get blue_message ''local'' =
          obj_get (settings (session (snd (onSettings demo_deps demo_world client3 blue_event)))) ''h3'' \<and>
        obj_get blue_message ''global'' =
          globalSettings (snd (onSettings demo_deps demo_world client3 blue_event))"
    by auto
  with c m l g show ?thesis by simp
qed

subsection \<open>Line selection\<close>

lemma clamp_max_min: "clamp (Some n) lo hi = Some (max lo (min hi n))"
  by (simp add: Let_def max_def min_def)

lemma onLine_no_shabad:
  "shabad (session w) = None \<Longrightarrow> onLine w c ev t = (Some TypeError, w)"
  by (simp add: onLine_def Let_def)

lemma onLine_no_lines:
  "shabad (session w) = Some sh \<Longrightarrow> lines sh = [] \<Longrightarrow> onLine w c ev t = (Some TypeError, w)"
  by (simp add: onLine_def Let_def lineOrderIdRange_def)

lemma lineOrderIdRange_lines:
  "lines sh \<noteq> [] \<Longrightarrow>
   lineOrderIdRange sh = Inr (orderId (hd (lines sh)), orderId (last (lines sh)))"
  by (cases "lines sh") (simp_all add: lineOrderIdRange_def)

lemma onLine_with_shabad:
  fixes ev :: line_event
  assumes "shabad (session w) = Some sh" and "lines sh \<noteq> []"
  defines "new \<equiv> newLineId sh (req_lineId ev)
                    (clampedLineOrderId (req_lineOrderId ev)
                       (orderId (hd (lines sh)), orderId (last (lines sh))))"
  shows "onLine w c ev t =
     (None,
      w\<lparr>session := (session w)\<lparr>viewedLines := Set_add (viewedLines (session w)) new,
                                lineId := new,
                                history := update_History
                                   (find (\<lambda>l. new = Some (id_line l)) (lines sh))
                                   (t \<or> new = None) (history (session w))\<rparr>,
        sent := sent w @ [(Broadcast, ''line'', PLine new),
                          (Broadcast, ''viewedLines'',
                           PViewed (Set_add (viewedLines (session w)) new))]\<rparr>)"
  using assms
  by (simp add: onLine_def Let_def lineOrderIdRange_lines broadcast_def activeLines_def)

lemma newLineId_cases:
  "newLineId sh lid cl =
     (if lid \<noteq> None \<and> lid \<noteq> Some [] then lid
      else (case cl of
              None \<Rightarrow> None
            | Some k \<Rightarrow>
                (case find (\<lambda>l. orderId l = k) (lines sh) of
                   None \<Rightarrow> None
                 | Some l \<Rightarrow> if id_line l = [] then None else Some (id_line l))))"
proof -
  have none: "find (\<lambda>l. False) (lines sh) = None"
    by (simp add: find_None_iff)
  show ?thesis
    by (cases lid; cases cl) (auto simp: newLineId_def orElse_def none split: option.splits)
qed

lemma clampedLineOrderId_Some:
  "clampedLineOrderId (Some n) (lo, hi) =
     (if max lo (min hi n) = 0 then None else Some (max lo (min hi n)))"
  unfolding clampedLineOrderId_def by (simp only: clamp_max_min fst_conv snd_conv orNull.simps)

lemma clampedLineOrderId_None: "clampedLineOrderId None r = None"
  by (simp add: clampedLineOrderId_def)

lemma newLineId_amended:
  "newLineId sh lid (clampedLineOrderId loid (orderId (hd (lines sh)), orderId (last (lines sh))))
     = amended_newLineId (lines sh) lid loid"
  by (cases loid)
     (simp_all add: newLineId_cases amended_newLineId_def clampedLineOrderId_Some
        clampedLineOrderId_None Let_def)

lemma amended_newLineId_claimed:
  assumes "ls \<noteq> []" and "lid \<noteq> Some []" and "\<forall>l \<in> set ls. id_line l \<noteq> []"
    and "lid \<noteq> None \<or> loid = None \<or>
         max (orderId (hd ls)) (min (orderId (last ls)) (the loid)) \<noteq> 0"
  shows "amended_newLineId ls lid loid = claimed_newLineId ls lid loid"
proof (cases lid)
  case (Some i)
  with assms(2) show ?thesis
    by (simp add: amended_newLineId_def claimed_newLineId_def)
next
  case None
  show ?thesis
  proof (cases loid)
    case None
    with \<open>lid = None\<close> show ?thesis
      by (simp add: amended_newLineId_def claimed_newLineId_def)
  next
    case (Some n)
    let ?k = "max (orderId (hd ls)) (min (orderId (last ls)) n)"
    from assms(4) \<open>lid = None\<close> Some have k: "?k \<noteq> 0" by simp
    have "(case find (\<lambda>l. orderId l = ?k) ls of
             None \<Rightarrow> None
           | Some l \<Rightarrow> if id_line l = [] then None else Some (id_line l))
          = map_option id_line (find (\<lambda>l. orderId l = ?k) ls)"
    proof (cases "find (\<lambda>l. orderId l = ?k) ls")
      case None
      then show ?thesis by simp
    next
      case (Some l)
      then have "l \<in> set ls" by (auto simp: find_Some_iff)
      with assms(3) Some show ?thesis by simp
    qed
    with k \<open>lid = None\<close> Some assms(1) show ?thesis
      by (simp add: amended_newLineId_def claimed_newLineId_def Let_def)
  qed
qed

text \<open>
  Claim C2, as amended. For every line event handled while a shabad with at least one line
  is in the session, \<open>onLine\<close> does not fail; it resolves the line id by priority (an
  explicit non-empty \<open>lineId\<close>; else, when \<open>lineOrderId\<close> is given and its clamp into the
  order ids of the shabad's first and last line is not \<open>0\<close>, the id of the first line with
  that order id; else \<open>null\<close>); it broadcasts the resolved id and then the viewed lines; and
  it appends exactly one history entry, for the line of the shabad with the resolved id,
  whose transition flag is the hint or that the resolved id is \<open>null\<close>.
\<close>

theorem onLine_selects_line:
  fixes ev :: line_event
  assumes "shabad (session w) = Some sh" and "lines sh \<noteq> []"
  shows "fst (onLine w c ev t) = None \<and>
    lineId (session (snd (onLine w c ev t)))
      = amended_newLineId (lines sh) (req_lineId ev) (req_lineOrderId ev) \<and>
    sent (snd (onLine w c ev t))
      = sent w @
        [(Broadcast, ''line'',
          PLine (amended_newLineId (lines sh) (req_lineId ev) (req_lineOrderId ev))),
         (Broadcast, ''viewedLines'', PViewed (viewedLines (session (snd (onLine w c ev t)))))] \<and>
    history (session (snd (onLine w c ev t)))
      = history (session w) @
        [\<lparr>entry_line =
            find (\<lambda>l. amended_newLineId (lines sh) (req_lineId ev) (req_lineOrderId ev)
                        = Some (id_line l)) (lines sh),
          isTransition =
            (t \<or> amended_newLineId (lines sh) (req_lineId ev) (req_lineOrderId ev) = None)\<rparr>]"
  by (simp add: onLine_with_shabad [OF assms] newLineId_amended update_History_def)

theorem onLine_selects_line_witness:
  "shabad (session shabad_world) = Some shabad1 \<and> lines shabad1 \<noteq> [] \<and>
   fst (onLine shabad_world client3 far_line_event False) = None \<and>
   lineId (session (snd (onLine shabad_world client3 far_line_event False))) = Some ''a3'' \<and>
   sent (snd (onLine shabad_world client3 far_line_event False))
     = [(Broadcast, ''line'', PLine (Some ''a3'')),
        (Broadcast, ''viewedLines'', PViewed [Some ''a3''])] \<and>
   history (session (snd (onLine shabad_world client3 far_line_event False)))
     = [\<lparr>entry_line = Some \<lparr>id_line = ''a3'', orderId = 2\<rparr>, isTransition = False\<rparr>]"
proof -
  have sh: "shabad (session shabad_world) = Some shabad1"
    by (simp add: shabad_world_def)
  have ne: "lines shabad1 \<noteq> []"
    by (simp add: shabad1_def)
  have r: "amended_newLineId (lines shabad1) (req_lineId far_line_event)
             (req_lineOrderId far_line_event) = Some ''a3''"
    by (simp add: amended_newLineId_def shabad1_def far_line_event_def)
  have f: "find (\<lambda>l. Some ''a3'' = Some (id_line l)) (lines shabad1)
             = Some \<lparr>id_line = ''a3'', orderId = 2\<rparr>"
    by (simp add: shabad1_def)
  have w: "sent shabad_world = []" "history (session shabad_world) = []"
    "viewedLines (session shabad_world) = []"
    by (simp_all add: shabad_world_def demo_world_def initial_session_def)
  have v: "viewedLines (session (snd (onLine shabad_world client3 far_line_event False)))
             = [Some ''a3'']"
    by (simp add: onLine_with_shabad [OF sh ne] newLineId_amended r w Set_add_def)
  from onLine_selects_line [OF sh ne, of client3 far_line_event False] sh ne r f w v
  show ?thesis by simp
qed

text \<open>
  Claim C2 as stated fails: for the line event \<open>{ lineOrderId: 0 }\<close> on a shabad whose first
  line \<open>a1\<close> has order id \<open>0\<close>, the wording resolves to \<open>a1\<close>, while \<open>onLine\<close> resolves to
  \<open>null\<close> and broadcasts \<open>null\<close>.
\<close>

theorem onLine_zero_ordinal_counterexample:
  "claimed_newLineId (lines shabad1) (req_lineId zero_line_event)
     (req_lineOrderId zero_line_event) = Some ''a1'' \<and>
   shabad (session shabad_world) = Some shabad1 \<and>
   lineId (session (snd (onLine shabad_world client3 zero_line_event False))) = None \<and>
   sent (snd (onLine shabad_world client3 zero_line_event False))
     = [(Broadcast, ''line'', PLine None), (Broadcast, ''viewedLines'', PViewed [None])]"
proof -
  have sh: "shabad (session shabad_world) = Some shabad1"
    by (simp add: shabad_world_def)
  have ne: "lines shabad1 \<noteq> []"
    by (simp add: shabad1_def)
  have c: "claimed_newLineId (lines shabad1) (req_lineId zero_line_event)
     (req_lineOrderId zero_line_event) = Some ''a1''"
    by (simp add: claimed_newLineId_def shabad1_def zero_line_event_def)
  have r: "amended_newLineId (lines shabad1) (req_lineId zero_line_event)
             (req_lineOrderId zero_line_event) = None"
    by (simp add: amended_newLineId_def shabad1_def zero_line_event_def)
  have w: "sent shabad_world = []" "viewedLines (session shabad_world) = []"
    by (simp_all add: shabad_world_def demo_world_def initial_session_def)
  show ?thesis
    by (simp add: c sh onLine_with_shabad [OF sh ne] newLineId_amended r w Set_add_def)
qed

subsection \<open>Lookup failures\<close>

lemma onShabad_lookup_failure:
  "shabadLookupFails d ev \<Longrightarrow> fst (onShabad d w c ev) \<noteq> None \<and> snd (onShabad d w c ev) = w"
  by (auto simp: shabadLookupFails_def onShabad_def split: sum.splits option.splits)

lemma onBani_lookup_failure:
  "baniLookupFails d b \<Longrightarrow> fst (onBani d w c b) \<noteq> None \<and> snd (onBani d w c b) = w"
  by (auto simp: baniLookupFails_def onBani_def split: sum.splits option.splits)

text \<open>
  Claim C8. When the repository lookup of a shabad or bani event fails (the promise is
  rejected or resolves to nothing), the handler ends with an exception and leaves the whole
  state as it was: no field of the session is changed and nothing is sent.
\<close>

theorem lookup_failure_leaves_state:
  "(shabadLookupFails d ev \<longrightarrow>
      fst (onShabad d w c ev) \<noteq> None \<and> snd (onShabad d w c ev) = w) \<and>
   (baniLookupFails d b \<longrightarrow>
      fst (onBani d w c b) \<noteq> None \<and> snd (onBani d w c b) = w)"
  using onShabad_lookup_failure onBani_lookup_failure by blast

theorem lookup_failure_leaves_state_witness:
  "shabadLookupFails demo_deps missing_shabad_event \<and>
   onShabad demo_deps shabad_world client3 missing_shabad_event = (Some TypeError, shabad_world) \<and>
   shabadLookupFails demo_deps rejected_shabad_event \<and>
   onShabad demo_deps shabad_world client3 rejected_shabad_event = (Some Rejected, shabad_world) \<and>
   baniLookupFails demo_deps ''sukhmani'' \<and>
   onBani demo_deps shabad_world client3 ''sukhmani'' = (Some TypeError, shabad_world)"
proof -
  have f1: "shabadLookupFails demo_deps missing_shabad_event"
    by (simp add: shabadLookupFails_def demo_deps_def missing_shabad_event_def fetchShabad_def)
  have f2: "shabadLookupFails demo_deps rejected_shabad_event"
    by (simp add: shabadLookupFails_def demo_deps_def rejected_shabad_event_def fetchShabad_def
        clampedShabadOrderId_def)
  have f3: "baniLookupFails demo_deps ''sukhmani''"
    by (simp add: baniLookupFails_def demo_deps_def)
  have e1: "fst (onShabad demo_deps shabad_world client3 missing_shabad_event) = Some TypeError"
    by (simp add: onShabad_def demo_deps_def missing_shabad_event_def fetchShabad_def)
  have e2: "fst (onShabad demo_deps shabad_world client3 rejected_shabad_event) = Some Rejected"
    by (simp add: onShabad_def demo_deps_def rejected_shabad_event_def fetchShabad_def
        clampedShabadOrderId_def)
  have e3: "fst (onBani demo_deps shabad_world client3 ''sukhmani'') = Some TypeError"
    by (simp add: onBani_def demo_deps_def)
  from lookup_failure_leaves_state [of demo_deps missing_shabad_event shabad_world client3
         "''sukhmani''"]
       lookup_failure_leaves_state [of demo_deps rejected_shabad_event shabad_world client3
         "''sukhmani''"]
       f1 f2 f3 e1 e2 e3
  show ?thesis by (simp add: prod_eq_iff)
qed

subsection \<open>Bani selection\<close>

lemma onBani_cases:
  "(fst (onBani d w c b) \<noteq> None \<and> snd (onBani d w c b) = w) \<or>
   (\<exists>bn. getBaniLines d b = Inr (Some bn) \<and> lines bn \<noteq> [] \<and>
      onBani d w c b =
        (Some TypeError,
         w\<lparr>session := (session w)\<lparr>bani := Some bn, shabad := None, viewedLines := []\<rparr>,
           sent := sent w @ [(Broadcast, ''bani'', PContent (Some bn))]\<rparr>))"
  by (auto simp: onBani_def Let_def broadcast_def onLine_no_shabad
      split: sum.splits option.splits list.splits)

lemma onBani_never_completes: "fst (onBani d w c b) \<noteq> None"
  using onBani_cases [of d w c b] by auto

lemma onBani_mainLineId_unchanged:
  "mainLineId (session (snd (onBani d w c b))) = mainLineId (session w)"
  using onBani_cases [of d w c b] by auto

text \<open>
  Claim C1, at Scenario A (bani \<open>japji\<close> with the lines \<open>l1\<close>, \<open>l2\<close>): \<open>onBani\<close> broadcasts the
  bani and then ends with a \<open>TypeError\<close>, since \<open>onLine\<close> reads \<open>session.shabad.lines\<close> and
  the shabad has just been set to \<open>null\<close>. No line and no viewed lines are broadcast, the
  current line stays \<open>null\<close>, nothing is viewed and the history gets no entry.
\<close>

theorem onBani_scenario_A:
  "fst (onBani demo_deps demo_world client3 ''japji'') = Some TypeError \<and>
   sent (snd (onBani demo_deps demo_world client3 ''japji''))
     = [(Broadcast, ''bani'', PContent (Some japji))] \<and>
   bani (session (snd (onBani demo_deps demo_world client3 ''japji''))) = Some japji \<and>
   lineId (session (snd (onBani demo_deps demo_world client3 ''japji''))) = None \<and>
   viewedLines (session (snd (onBani demo_deps demo_world client3 ''japji''))) = [] \<and>
   history (session (snd (onBani demo_deps demo_world client3 ''japji''))) = []"
  by code_simp

text \<open>
  Claim C7, at a session that shows the shabad \<open>s1\<close> with the main line \<open>a2\<close>: after the bani
  event the shabad is cleared and no line is viewed, but the main line is still \<open>a2\<close>. A
  shabad event on the same session clears it.
\<close>

theorem onBani_keeps_main_line:
  "mainLineId (session browsing_world) = Some ''a2'' \<and>
   shabad (session (snd (onBani demo_deps browsing_world client3 ''japji''))) = None \<and>
   viewedLines (session (snd (onBani demo_deps browsing_world client3 ''japji''))) = [] \<and>
   mainLineId (session (snd (onBani demo_deps browsing_world client3 ''japji''))) = Some ''a2'' \<and>
   mainLineId (session (snd (onShabad demo_deps browsing_world client3 zero_shabad_event))) = None"
  by code_simp

subsection \<open>Connection\<close>

lemma synchronise_messages:
  "sent (synchronise d w c) =
     sent w @
     [(To c, (if bani (session w) = None then ''shabad'' else ''bani''),
       PContent (if bani (session w) = None then shabad (session w) else bani (session w))),
      (To c, ''line'', PLine (lineId (session w))),
      (To c, ''viewedLines'', PViewed (viewedLines (session w))),
      (To c, ''mainLine'', PMainLine (mainLineId (session w))),
      (To c, ''status'', PStatus (status (session w))),
      (To c, ''history'', PHistory (getTransitionsOnly (history (session w)))),
      (To c, ''settings'', PSettings (getPublicSettings d (session w)))]"
  by (simp add: synchronise_def Let_def sendJSON_def split: option.splits)


text \<open>
  Claim C9, at a session in which the host \<open>h3\<close> of the connecting client has stored
  settings: the seven messages go to that client in the order of the claim, but the last
  one is the plain public view. It still has the entry of the client's own host under the
  key \<open>h3\<close> and it has no \<open>local\<close> and no \<open>global\<close> field, unlike the message that
  \<open>onSettings\<close> builds for the same client.
\<close>

theorem synchronise_sends_plain_public_view:
  "sent (synchronise demo_deps demo_world client3) =
     [(To client3, ''shabad'', PContent None),
      (To client3, ''line'', PLine None),
      (To client3, ''viewedLines'', PViewed []),
      (To client3, ''mainLine'', PMainLine (Some ''m9'')),
      (To client3, ''status'', PStatus None),
      (To client3, ''history'', PHistory []),
      (To client3, ''settings'',
       PSettings [(''h3'', JObj [(''theme'', JStr ''dark'')]), (''h4'', JUndefined)])] \<and>
   clientSettings (getPublicSettings demo_deps (session demo_world))
       (settings (session demo_world)) (globalSettings demo_world) client3 =
     [(''h3'', JUndefined), (''h4'', JUndefined),
      (''local'', JObj [(''theme'', JStr ''dark'')]),
      (''global'', JObj [(''system'', JObj [(''automaticUpdates'', JBool True)])])]"
  by code_simp

subsection \<open>Viewed lines\<close>






lemma onLine_keeps_content:
  "shabad (session (snd (onLine w c ev t))) = shabad (session w) \<and>
   bani (session (snd (onLine w c ev t))) = bani (session w)"
  by (auto simp: onLine_def Let_def broadcast_def split: sum.splits option.splits)


lemma onShabad_result:
  assumes "getShabadRange d = Inr r" and "fetchShabad d ev r = Inr (Some sh)"
  shows "snd (onShabad d w c ev) =
           (if lines sh = []
            then broadcast ''shabad'' (PContent (Some sh))
                   (w\<lparr>session := (session w)\<lparr>shabad := Some sh, bani := None, viewedLines := [],
                                              mainLineId := None\<rparr>\<rparr>)
            else broadcast ''history''
                   (PHistory (getTransitionsOnly (history (session
                      (snd (onLine (broadcast ''shabad'' (PContent (Some sh))
                         (w\<lparr>session := (session w)\<lparr>shabad := Some sh, bani := None,
                            viewedLines := [], mainLineId := None\<rparr>\<rparr>)) c (rest ev) True))))))
                   (snd (onLine (broadcast ''shabad'' (PContent (Some sh))
                      (w\<lparr>session := (session w)\<lparr>shabad := Some sh, bani := None,
                         viewedLines := [], mainLineId := None\<rparr>\<rparr>)) c (rest ev) True)))"
proof (cases "lines sh = []")
  case True
  let ?w1 = "broadcast ''shabad'' (PContent (Some sh))
               (w\<lparr>session := (session w)\<lparr>shabad := Some sh, bani := None, viewedLines := [],
                                          mainLineId := None\<rparr>\<rparr>)"
  have "shabad (session ?w1) = Some sh" by (simp add: broadcast_def)
  from onLine_no_lines [OF this True] True assms show ?thesis
    by (simp add: onShabad_def Let_def)
next
  case False
  let ?w1 = "broadcast ''shabad'' (PContent (Some sh))
               (w\<lparr>session := (session w)\<lparr>shabad := Some sh, bani := None, viewedLines := [],
                                          mainLineId := None\<rparr>\<rparr>)"
  have sh: "shabad (session ?w1) = Some sh" by (simp add: broadcast_def)
  have "fst (onLine ?w1 c (rest ev) True) = None"
    by (simp add: onLine_with_shabad [OF sh False])
  then obtain w2 where "onLine ?w1 c (rest ev) True = (None, w2)"
    by (cases "onLine ?w1 c (rest ev) True") auto
  with False assms show ?thesis
    by (simp add: onShabad_def Let_def)
qed










subsection \<open>Order id zero\<close>

lemma fetchShabad_falsy:
  "\<not> truthyNum (shabadOrderId ev) \<Longrightarrow> fetchShabad d ev r = getShabad d (shabadId ev)"
  by (simp add: fetchShabad_def)

lemma onShabad_by_id:
  assumes "\<not> truthyNum (shabadOrderId ev)"
  shows "onShabad d w c ev = onShabad (d\<lparr>getShabadByOrderId := g\<rparr>) w c ev"
proof -
  have "fetchShabad (d\<lparr>getShabadByOrderId := g\<rparr>) ev r = fetchShabad d ev r" for r
    using assms by (simp add: fetchShabad_def)
  then show ?thesis
    by (simp add: onShabad_def cong: sum.case_cong)
qed

lemma onLine_clamped_zero:
  fixes ev :: line_event
  assumes "shabad (session w) = Some sh" and "lines sh \<noteq> []"
    and "clamp (req_lineOrderId ev) (orderId (hd (lines sh))) (orderId (last (lines sh))) = Some 0"
  shows "onLine w c ev t = onLine w c (ev\<lparr>req_lineOrderId := None\<rparr>) t"
    and "\<not> truthyStr (req_lineId ev) \<Longrightarrow> lineId (session (snd (onLine w c ev t))) = None"
    and "fst (onLine w c ev t) = None"
proof -
  have cl: "clampedLineOrderId (req_lineOrderId ev)
              (orderId (hd (lines sh)), orderId (last (lines sh))) = None"
    using assms(3) by (simp add: clampedLineOrderId_def)
  show "onLine w c ev t = onLine w c (ev\<lparr>req_lineOrderId := None\<rparr>) t"
    by (simp add: onLine_with_shabad [OF assms(1,2)] cl clampedLineOrderId_None)
  show "fst (onLine w c ev t) = None"
    by (simp add: onLine_with_shabad [OF assms(1,2)])
  show "lineId (session (snd (onLine w c ev t))) = None" if "\<not> truthyStr (req_lineId ev)"
    using that
    by (cases "req_lineId ev") (simp_all add: onLine_with_shabad [OF assms(1,2)] cl newLineId_cases)
qed

lemma onLine_sent_prefix: "\<exists>ms. sent (snd (onLine w c ev t)) = sent w @ ms"
  by (auto simp: onLine_def Let_def broadcast_def split: sum.splits option.splits)

lemma onShabad_installs:
  assumes "getShabadRange d = Inr r" and "fetchShabad d ev r = Inr (Some sh)"
  shows "shabad (session (snd (onShabad d w c ev))) = Some sh"
    and "bani (session (snd (onShabad d w c ev))) = None"
    and "take (Suc (length (sent w))) (sent (snd (onShabad d w c ev)))
           = sent w @ [(Broadcast, ''shabad'', PContent (Some sh))]"
proof -
  let ?w1 = "broadcast ''shabad'' (PContent (Some sh))
               (w\<lparr>session := (session w)\<lparr>shabad := Some sh, bani := None, viewedLines := [],
                                          mainLineId := None\<rparr>\<rparr>)"
  let ?r = "onLine ?w1 c (rest ev) True"
  have s1: "shabad (session ?w1) = Some sh" "bani (session ?w1) = None"
    "sent ?w1 = sent w @ [(Broadcast, ''shabad'', PContent (Some sh))]"
    by (simp_all add: broadcast_def)
  from onLine_keeps_content [of ?w1 c "rest ev" True] s1
  have k: "shabad (session (snd ?r)) = Some sh" "bani (session (snd ?r)) = None"
    by simp_all
  from onLine_sent_prefix [of ?w1 c "rest ev" True] s1 obtain ms
    where ms: "sent (snd ?r) = sent w @ [(Broadcast, ''shabad'', PContent (Some sh))] @ ms"
    by auto
  have res: "snd (onShabad d w c ev) =
      (if lines sh = [] then ?w1
       else broadcast ''history'' (PHistory (getTransitionsOnly (history (session (snd ?r)))))
              (snd ?r))"
    by (rule onShabad_result [OF assms])
  show "shabad (session (snd (onShabad d w c ev))) = Some sh"
    using s1 k by (simp add: res) (simp add: broadcast_def)
  show "bani (session (snd (onShabad d w c ev))) = None"
    using s1 k by (simp add: res) (simp add: broadcast_def)
  show "take (Suc (length (sent w))) (sent (snd (onShabad d w c ev)))
           = sent w @ [(Broadcast, ''shabad'', PContent (Some sh))]"
  proof (cases "lines sh = []")
    case True
    with s1 show ?thesis by (simp add: res)
  next
    case False
    have "sent (broadcast ''history'' (PHistory (getTransitionsOnly (history (session (snd ?r)))))
              (snd ?r))
          = sent w @ [(Broadcast, ''shabad'', PContent (Some sh))] @ ms @
            [(Broadcast, ''history'', PHistory (getTransitionsOnly (history (session (snd ?r)))))]"
      using ms by (simp add: broadcast_def)
    with False show ?thesis by (simp add: res)
  qed
qed

lemma onShabad_rejected:
  "getShabadRange d = Inr r \<Longrightarrow> fetchShabad d ev r = Inl e \<Longrightarrow> onShabad d w c ev = (Some e, w)"
  by (simp add: onShabad_def)

lemma onShabad_nothing:
  "getShabadRange d = Inr r \<Longrightarrow> fetchShabad d ev r = Inr None \<Longrightarrow>
   onShabad d w c ev = (Some TypeError, w)"
  by (simp add: onShabad_def)

lemma onLine_clamped_zero_sent:
  fixes ev :: line_event
  assumes "shabad (session w) = Some sh" and "lines sh \<noteq> []"
    and "clamp (req_lineOrderId ev) (orderId (hd (lines sh))) (orderId (last (lines sh))) = Some 0"
    and "\<not> truthyStr (req_lineId ev)"
  shows "sent (snd (onLine w c ev t))
           = sent w @ [(Broadcast, ''line'', PLine None),
                       (Broadcast, ''viewedLines'',
                        PViewed (viewedLines (session (snd (onLine w c ev t)))))]"
proof -
  have cl: "clampedLineOrderId (req_lineOrderId ev)
              (orderId (hd (lines sh)), orderId (last (lines sh))) = None"
    using assms(3) by (simp add: clampedLineOrderId_def)
  from assms(4) show ?thesis
    by (cases "req_lineId ev") (simp_all add: onLine_with_shabad [OF assms(1,2)] cl newLineId_cases)
qed

text \<open>
  Claim C10. A shabad event whose \<open>shabadOrderId\<close> is \<open>0\<close> or absent is looked up by
  \<open>shabadId\<close>, whatever the range of the repository is: the lookup is \<open>getShabad\<close>, and
  the outcome of the handler does not depend on \<open>getShabadByOrderId\<close>. The handler does
  with the result of \<open>getShabad\<close> what it does with any lookup: a shabad that
  \<open>getShabad\<close> returns becomes the shabad of the session (the bani is cleared) and is the
  first thing broadcast; a rejection, or no result, ends the handler with the state
  unchanged. In a line selection (on a shabad with lines), a \<open>lineOrderId\<close> whose clamped
  value is \<open>0\<close> has the effect of an absent \<open>lineOrderId\<close>; without an explicit \<open>lineId\<close>
  the resolved line id is \<open>null\<close>, and \<open>null\<close> is what is broadcast.
\<close>

theorem zero_order_id_counts_as_absent:
  fixes ev :: shabad_event and lev :: line_event
  shows "(shabadOrderId ev = None \<or> shabadOrderId ev = Some 0 \<longrightarrow>
            fetchShabad d ev r = getShabad d (shabadId ev) \<and>
            onShabad d w c ev = onShabad (d\<lparr>getShabadByOrderId := g\<rparr>) w c ev \<and>
            (getShabadRange d = Inr r \<and> getShabad d (shabadId ev) = Inr (Some got) \<longrightarrow>
               shabad (session (snd (onShabad d w c ev))) = Some got \<and>
               bani (session (snd (onShabad d w c ev))) = None \<and>
               take (Suc (length (sent w))) (sent (snd (onShabad d w c ev)))
                 = sent w @ [(Broadcast, ''shabad'', PContent (Some got))]) \<and>
            (getShabadRange d = Inr r \<and> getShabad d (shabadId ev) = Inl e \<longrightarrow>
               onShabad d w c ev = (Some e, w)) \<and>
            (getShabadRange d = Inr r \<and> getShabad d (shabadId ev) = Inr None \<longrightarrow>
               onShabad d w c ev = (Some TypeError, w))) \<and>
         (shabad (session v) = Some sh \<and> lines sh \<noteq> [] \<and>
          clamp (req_lineOrderId lev) (orderId (hd (lines sh))) (orderId (last (lines sh)))
            = Some 0 \<longrightarrow>
            onLine v c lev t = onLine v c (lev\<lparr>req_lineOrderId := None\<rparr>) t \<and>
            fst (onLine v c lev t) = None \<and>
            (\<not> truthyStr (req_lineId lev) \<longrightarrow>
               lineId (session (snd (onLine v c lev t))) = None \<and>
               sent (snd (onLine v c lev t))
                 = sent v @ [(Broadcast, ''line'', PLine None),
                             (Broadcast, ''viewedLines'',
                              PViewed (viewedLines (session (snd (onLine v c lev t)))))]))"
proof -
  have shabad_part:
    "fetchShabad d ev r = getShabad d (shabadId ev) \<and>
     onShabad d w c ev = onShabad (d\<lparr>getShabadByOrderId := g\<rparr>) w c ev \<and>
     (getShabadRange d = Inr r \<and> getShabad d (shabadId ev) = Inr (Some got) \<longrightarrow>
        shabad (session (snd (onShabad d w c ev))) = Some got \<and>
        bani (session (snd (onShabad d w c ev))) = None \<and>
        take (Suc (length (sent w))) (sent (snd (onShabad d w c ev)))
          = sent w @ [(Broadcast, ''shabad'', PContent (Some got))]) \<and>
     (getShabadRange d = Inr r \<and> getShabad d (shabadId ev) = Inl e \<longrightarrow>
        onShabad d w c ev = (Some e, w)) \<and>
     (getShabadRange d = Inr r \<and> getShabad d (shabadId ev) = Inr None \<longrightarrow>
        onShabad d w c ev = (Some TypeError, w))"
    if z: "shabadOrderId ev = None \<or> shabadOrderId ev = Some 0"
  proof -
    from z have n: "\<not> truthyNum (shabadOrderId ev)" by auto
    then have f: "fetchShabad d ev r = getShabad d (shabadId ev)"
      by (rule fetchShabad_falsy)
    from n have i: "onShabad d w c ev = onShabad (d\<lparr>getShabadByOrderId := g\<rparr>) w c ev"
      by (rule onShabad_by_id)
    show ?thesis
      using f i
        onShabad_installs [where d = d and r = r and ev = ev and sh = got and w = w and c = c]
        onShabad_rejected [where d = d and r = r and ev = ev and e = e and w = w and c = c]
        onShabad_nothing [where d = d and r = r and ev = ev and w = w and c = c]
      by metis
  qed
  have line_part:
    "onLine v c lev t = onLine v c (lev\<lparr>req_lineOrderId := None\<rparr>) t \<and>
     fst (onLine v c lev t) = None \<and>
     (\<not> truthyStr (req_lineId lev) \<longrightarrow>
        lineId (session (snd (onLine v c lev t))) = None \<and>
        sent (snd (onLine v c lev t))
          = sent v @ [(Broadcast, ''line'', PLine None),
                      (Broadcast, ''viewedLines'',
                       PViewed (viewedLines (session (snd (onLine v c lev t)))))])"
    if "shabad (session v) = Some sh" "lines sh \<noteq> []"
      "clamp (req_lineOrderId lev) (orderId (hd (lines sh))) (orderId (last (lines sh))) = Some 0"
    using onLine_clamped_zero [OF that, of c t] onLine_clamped_zero_sent [OF that, of c t]
    by blast
  from shabad_part line_part show ?thesis by blast
qed

theorem zero_order_id_counts_as_absent_witness:
  "shabadOrderId zero_shabad_event = Some 0 \<and>
   getShabadRange demo_deps = Inr (0, 500) \<and>
   getShabad demo_deps (shabadId zero_shabad_event) = Inr (Some shabad1) \<and>
   fetchShabad demo_deps zero_shabad_event (0, 500) = Inr (Some shabad1) \<and>
   onShabad demo_deps demo_world client3 zero_shabad_event
     = onShabad (demo_deps\<lparr>getShabadByOrderId := (\<lambda>n. Inl Rejected)\<rparr>) demo_world client3
         zero_shabad_event \<and>
   shabad (session (snd (onShabad demo_deps demo_world client3 zero_shabad_event)))
     = Some shabad1 \<and>
   bani (session (snd (onShabad demo_deps demo_world client3 zero_shabad_event))) = None \<and>
   take (Suc (length (sent demo_world)))
     (sent (snd (onShabad demo_deps demo_world client3 zero_shabad_event)))
     = sent demo_world @ [(Broadcast, ''shabad'', PContent (Some shabad1))] \<and>
   shabadOrderId missing_shabad_event = None \<and>
   getShabad demo_deps (shabadId missing_shabad_event) = Inr None \<and>
   onShabad demo_deps demo_world client3 missing_shabad_event = (Some TypeError, demo_world) \<and>
   shabad (session shabad_world) = Some shabad1 \<and>
   clamp (req_lineOrderId zero_line_event) (orderId (hd (lines shabad1)))
     (orderId (last (lines shabad1))) = Some 0 \<and>
   onLine shabad_world client3 zero_line_event False
     = onLine shabad_world client3 (zero_line_event\<lparr>req_lineOrderId := None\<rparr>) False \<and>
   fst (onLine shabad_world client3 zero_line_event False) = None \<and>
   lineId (session (snd (onLine shabad_world client3 zero_line_event False))) = None \<and>
   sent (snd (onLine shabad_world client3 zero_line_event False))
     = sent shabad_world @
       [(Broadcast, ''line'', PLine None),
        (Broadcast, ''viewedLines'',
         PViewed (viewedLines
           (session (snd (onLine shabad_world client3 zero_line_event False)))))]"
proof -
  have z: "shabadOrderId zero_shabad_event = Some 0"
    by (simp add: zero_shabad_event_def)
  have rg: "getShabadRange demo_deps = Inr (0, 500)"
    by (simp add: demo_deps_def)
  have g: "getShabad demo_deps (shabadId zero_shabad_event) = Inr (Some shabad1)"
    by (simp add: demo_deps_def zero_shabad_event_def)
  have z': "shabadOrderId missing_shabad_event = None"
    by (simp add: missing_shabad_event_def)
  have g': "getShabad demo_deps (shabadId missing_shabad_event) = Inr None"
    by (simp add: demo_deps_def missing_shabad_event_def)
  have sh: "shabad (session shabad_world) = Some shabad1"
    by (simp add: shabad_world_def)
  have ne: "lines shabad1 \<noteq> []"
    by (simp add: shabad1_def)
  have cl: "clamp (req_lineOrderId zero_line_event) (orderId (hd (lines shabad1)))
     (orderId (last (lines shabad1))) = Some 0"
    by (simp add: zero_line_event_def shabad1_def)
  have nl: "\<not> truthyStr (req_lineId zero_line_event)"
    by (simp add: zero_line_event_def)
  note found = zero_order_id_counts_as_absent
         [where ev = zero_shabad_event and d = demo_deps and r = "(0, 500)" and w = demo_world
            and v = shabad_world and c = client3 and g = "\<lambda>n. Inl Rejected" and sh = shabad1
            and lev = zero_line_event and t = False and got = shabad1]
  note missing = zero_order_id_counts_as_absent
         [where ev = missing_shabad_event and d = demo_deps and r = "(0, 500)" and w = demo_world
            and v = shabad_world and c = client3 and sh = shabad1
            and lev = zero_line_event and t = False]
  from found z rg g
  have a: "fetchShabad demo_deps zero_shabad_event (0, 500) = Inr (Some shabad1) \<and>
     onShabad demo_deps demo_world client3 zero_shabad_event
       = onShabad (demo_deps\<lparr>getShabadByOrderId := (\<lambda>n. Inl Rejected)\<rparr>) demo_world client3
           zero_shabad_event \<and>
     shabad (session (snd (onShabad demo_deps demo_world client3 zero_shabad_event)))
       = Some shabad1 \<and>
     bani (session (snd (onShabad demo_deps demo_world client3 zero_shabad_event))) = None \<and>
     take (Suc (length (sent demo_world)))
       (sent (snd (onShabad demo_deps demo_world client3 zero_shabad_event)))
       = sent demo_world @ [(Broadcast, ''shabad'', PContent (Some shabad1))]"
    by metis
  from missing z' rg g'
  have b: "onShabad demo_deps demo_world client3 missing_shabad_event
             = (Some TypeError, demo_world)"
    by metis
  from found sh ne cl nl
  have l: "onLine shabad_world client3 zero_line_event False
       = onLine shabad_world client3 (zero_line_event\<lparr>req_lineOrderId := None\<rparr>) False \<and>
     fst (onLine shabad_world client3 zero_line_event False) = None \<and>
     lineId (session (snd (onLine shabad_world client3 zero_line_event False))) = None \<and>
     sent (snd (onLine shabad_world client3 zero_line_event False))
       = sent shabad_world @
         [(Broadcast, ''line'', PLine None),
          (Broadcast, ''viewedLines'',
           PViewed (viewedLines
             (session (snd (onLine shabad_world client3 zero_line_event False)))))]"
    by metis
  from z rg g z' g' sh cl a b l show ?thesis by blast
qed

end
